theory Spec2Isabelle
  imports Main "HOL-Library.Word"
begin

section \<open>The main window of the Feather wallet: update check, balance label, recent wallets\<close>

text \<open>
  The handlers of \<open>MainWindow\<close> are embedded as functions on an explicit state: the
  widgets the handlers write, the configuration singleton, the log and the list of
  network requests that have been sent. Constants and helpers that the handlers use
  but that are not part of the sources at hand (\<open>WalletManager::displayAmount\<close>,
  \<open>Utils::fileExists\<close>, the enumerators of \<open>Config\<close>, \<open>constants::websiteUrl\<close>,
  \<open>FEATHER_VERSION\<close>) are taken as parameters; \<open>SemanticVersion\<close> and
  \<open>Updater::verifyParseSignedHashes\<close> are modelled from the specification.
\<close>

subsection \<open>Strings and byte arrays\<close>

type_synonym QString = string
type_synonym QByteArray = "8 word list"

definition isDigit :: "char \<Rightarrow> bool" where
  "isDigit c = (48 \<le> (of_char c :: nat) \<and> (of_char c :: nat) \<le> 57)"

definition digitValue :: "char \<Rightarrow> nat" where
  "digitValue c = (of_char c :: nat) - 48"

text \<open>
  \<open>QString::arg(a1, ..., ak)\<close> with several arguments replaces the place markers in one
  pass (an argument is never scanned again). A marker is \<open>%\<close> and one or two digits.
  Qt assigns the arguments to the markers by rank; in every format literal of the source
  the markers are exactly \<open>%1 .. %k\<close>, where rank and number agree, and this is what
  \<open>marker\<close> implements. A marker without an argument stays as it is.
\<close>

definition marker :: "QString list \<Rightarrow> nat \<Rightarrow> QString \<Rightarrow> QString" where
  "marker args n raw = (if 1 \<le> n \<and> n \<le> length args then args ! (n - 1) else raw)"

fun arg :: "QString \<Rightarrow> QString list \<Rightarrow> QString" where
  "arg [] args = []"
| "arg [c] args = [c]"
| "arg [c, d] args =
     (if c = CHR ''%'' \<and> isDigit d then marker args (digitValue d) [c, d]
      else c # arg [d] args)"
| "arg (c # d # e # cs) args =
     (if c = CHR ''%'' \<and> isDigit d then
        (if isDigit e then marker args (10 * digitValue d + digitValue e) [c, d, e] @ arg cs args
         else marker args (digitValue d) [c, d] @ arg (e # cs) args)
      else c # arg (d # e # cs) args)"

text \<open>
  \<open>QString::replace(before, after)\<close>: every occurrence, left to right, not overlapping
  (the source calls it with a non-empty \<open>before\<close> only; an empty one replaces nothing here).
\<close>

function replace :: "QString \<Rightarrow> QString \<Rightarrow> QString \<Rightarrow> QString" where
  "replace beforeStr afterStr [] = []"
| "replace beforeStr afterStr (c # cs) =
     (if beforeStr \<noteq> [] \<and> take (length beforeStr) (c # cs) = beforeStr
      then afterStr @ replace beforeStr afterStr (drop (length beforeStr) (c # cs))
      else c # replace beforeStr afterStr cs)"
  by pat_completeness auto
termination
  by (relation "measure (\<lambda>(b, a, s). length s)") auto

definition hexDigit :: "nat \<Rightarrow> char" where
  "hexDigit n = ''0123456789abcdef'' ! (n mod 16)"

text \<open>\<open>QByteArray::toHex\<close>: two lower-case hexadecimal digits per byte.\<close>

definition toHex :: "QByteArray \<Rightarrow> QString" where
  "toHex bs = concat (map (\<lambda>b. [hexDigit (unat b div 16), hexDigit (unat b mod 16)]) bs)"

subsection \<open>The state the handlers work on\<close>

text \<open>
  The values captured by the click handler that \<open>onCheckUpdatesComplete\<close> connects:
  the tuple of a verified update.
\<close>

record VerifiedUpdate =
  version :: QString
  binaryFilename :: QString
  hash :: QString
  signer :: QString

text \<open>
  The status-bar button \<open>m_statusUpdateAvailable\<close>. The only slot ever connected to it is
  the lambda of \<open>onCheckUpdatesComplete\<close>, so a connection is the tuple it captured.
\<close>

record Button =
  buttonText :: QString
  buttonToolTip :: QString
  visible :: bool
  clicked :: "VerifiedUpdate list"

record Label =
  labelText :: QString
  labelToolTip :: QString

datatype MenuItem = WalletAction QString QString | Separator | ClearRecentlyOpenAction

record Config =
  hideBalance :: bool
  balanceDisplay :: int
  amountPrecision :: int
  recentlyOpenedWallets :: "QString list"

text \<open>A line written through \<open>qWarning()\<close> or \<open>qInfo()\<close>: the items streamed into it.\<close>

datatype LogLine = Warning "QString list" | Info "QString list"

text \<open>
  A request sent by \<open>UtilsNetworking::get\<close>, with the arguments bound to the
  continuation \<open>onSignedHashesReceived\<close> of its reply.
\<close>

record Request =
  url :: QString
  boundPlatformTag :: QString
  boundVersion :: QString

record MainWindow =
  m_statusUpdateAvailable :: Button
  m_statusLabelBalance :: Label
  m_balanceTickerWidget_hidden :: bool
  menuRecently_open :: "MenuItem list"
  config :: Config
  log :: "LogLine list"
  network :: "Request list"

definition qWarning :: "QString list \<Rightarrow> MainWindow \<Rightarrow> MainWindow" where
  "qWarning items w = w\<lparr>log := log w @ [Warning items]\<rparr>"

definition qInfo :: "QString list \<Rightarrow> MainWindow \<Rightarrow> MainWindow" where
  "qInfo items w = w\<lparr>log := log w @ [Info items]\<rparr>"

subsection \<open>\<open>MainWindow::onBalanceUpdated\<close>\<close>

text \<open>The enumerators of \<open>Config\<close> that the balance display setting is compared with.\<close>

record BalanceDisplay =
  totalBalance :: int
  spendable :: int
  spendablePlusUnconfirmed :: int

definition onBalanceUpdated ::
  "BalanceDisplay \<Rightarrow> (64 word \<Rightarrow> bool \<Rightarrow> int \<Rightarrow> QString) \<Rightarrow> 64 word \<Rightarrow> 64 word \<Rightarrow>
   MainWindow \<Rightarrow> MainWindow" where
  "onBalanceUpdated E displayAmount balance spendableAmount w =
     (let hide = hideBalance (config w);
          displaySetting = balanceDisplay (config w);
          decimals = amountPrecision (config w);
          balance_str =
            ''Balance: '' @
            (if hide then ''HIDDEN''
             else if displaySetting = totalBalance E then
               arg ''%1 XMR'' [displayAmount balance False decimals]
             else if displaySetting = spendable E \<or> displaySetting = spendablePlusUnconfirmed E then
               arg ''%1 XMR'' [displayAmount spendableAmount False decimals] @
               (if displaySetting = spendablePlusUnconfirmed E \<and> balance > spendableAmount
                then arg '' (+%1 XMR unconfirmed)''
                       [displayAmount (balance - spendableAmount) False decimals]
                else [])
             else [])
      in w\<lparr>m_statusLabelBalance := \<lparr>labelText = balance_str, labelToolTip = ''Click for details''\<rparr>,
           m_balanceTickerWidget_hidden := hide\<rparr>)"

subsection \<open>\<open>MainWindow::addToRecentlyOpened\<close>\<close>

text \<open>\<open>QFileInfo::fileName\<close>: the part of the path after the last slash.\<close>

definition fileName :: "QString \<Rightarrow> QString" where
  "fileName p = rev (takeWhile (\<lambda>c. c \<noteq> CHR ''/'') (rev p))"

definition updateRecentlyOpenedMenu :: "MainWindow \<Rightarrow> MainWindow" where
  "updateRecentlyOpenedMenu w =
     w\<lparr>menuRecently_open :=
         map (\<lambda>walletPath. WalletAction (fileName walletPath) walletPath)
             (recentlyOpenedWallets (config w))
         @ [Separator, ClearRecentlyOpenAction]\<rparr>"

text \<open>
  The loop over \<open>recent\<close>: \<open>recentKept\<close> (the source's \<open>recent_\<close>) and \<open>count\<close> are the
  accumulators, the \<open>break\<close>
  ends the recursion.
\<close>

fun keepExisting :: "(QString \<Rightarrow> bool) \<Rightarrow> QString list \<Rightarrow> QString list \<Rightarrow> int \<Rightarrow> QString list" where
  "keepExisting fileExists [] recentKept count = recentKept"
| "keepExisting fileExists (file # rest) recentKept count =
     (let recentKept' = (if fileExists file then recentKept @ [file] else recentKept);
          count' = (if fileExists file then count + 1 else count)
      in if count' \<ge> 5 then recentKept' else keepExisting fileExists rest recentKept' count')"

definition addToRecentlyOpened :: "(QString \<Rightarrow> bool) \<Rightarrow> QString \<Rightarrow> MainWindow \<Rightarrow> MainWindow" where
  "addToRecentlyOpened fileExists keysFile w =
     (let recent = recentlyOpenedWallets (config w);
          recent1 = (if keysFile \<in> set recent then remove1 keysFile recent else recent);
          recent2 = keysFile # recent1;
          recentKept = keepExisting fileExists recent2 [] 0
      in updateRecentlyOpenedMenu (w\<lparr>config := (config w)\<lparr>recentlyOpenedWallets := recentKept\<rparr>\<rparr>))"

text \<open>
  The window as \<open>initStatusBar\<close> leaves it: the update button hidden and without
  connections, the balance label with its initial text.
\<close>

definition initStatusBar :: "Config \<Rightarrow> MainWindow" where
  "initStatusBar cfg =
     \<lparr>m_statusUpdateAvailable = \<lparr>buttonText = [], buttonToolTip = [], visible = False, clicked = []\<rparr>,
      m_statusLabelBalance = \<lparr>labelText = ''Balance: 0 XMR'', labelToolTip = []\<rparr>,
      m_balanceTickerWidget_hidden = False,
      menuRecently_open = [],
      config = cfg,
      log = [],
      network = []\<rparr>"

text \<open>A disk given by the list of its files, for \<open>Utils::fileExists\<close> on concrete inputs.\<close>

definition fileExistsOn :: "QString list \<Rightarrow> QString \<Rightarrow> bool" where
  "fileExistsOn disk file = (file \<in> set disk)"

subsection \<open>The platform tag\<close>

text \<open>
  The macros that select the branches of \<open>getPlatformTag\<close> at compile time, and the
  value of the environment variable \<open>APPIMAGE\<close> (empty when it is not set).
\<close>

record Platform =
  Q_OS_MACOS :: bool
  Q_OS_WIN :: bool
  PLATFORM_INSTALLER :: bool
  Q_OS_LINUX :: bool
  APPIMAGE :: QString

definition getPlatformTag :: "Platform \<Rightarrow> QString" where
  "getPlatformTag P =
     (if Q_OS_MACOS P then ''mac''
      else if Q_OS_WIN P then (if PLATFORM_INSTALLER P then ''win-installer'' else ''win'')
      else if Q_OS_LINUX P then (if APPIMAGE P \<noteq> [] then ''linux-appimage'' else ''linux'')
      else [])"

record Env =
  platform :: Platform
  FEATHER_VERSION :: QString
  websiteUrl :: QString

subsection \<open>The feed payload\<close>

text \<open>
  \<open>QJsonValue\<close>. The handlers never read a number, so its payload is kept as an integer.
  \<open>valueAt\<close> is \<open>operator[]\<close>: a missing key gives \<open>Undefined\<close> (the non-const
  operator gives \<open>Null\<close> instead, which \<open>toObject\<close> and \<open>toString\<close> treat alike);
  \<open>toObject\<close> of anything but an object is the empty object, \<open>toString\<close> of anything
  but a string the null string.
\<close>

datatype QJsonValue =
  JsonNull | JsonBool bool | JsonDouble int | JsonString QString
  | JsonArray "QJsonValue list" | JsonObject "(QString \<times> QJsonValue) list" | JsonUndefined

type_synonym QJsonObject = "(QString \<times> QJsonValue) list"

definition valueAt :: "QJsonObject \<Rightarrow> QString \<Rightarrow> QJsonValue" where
  "valueAt obj key = (case map_of obj key of Some v \<Rightarrow> v | None \<Rightarrow> JsonUndefined)"

definition toObject :: "QJsonValue \<Rightarrow> QJsonObject" where
  "toObject v = (case v of JsonObject obj \<Rightarrow> obj | _ \<Rightarrow> [])"

definition toString :: "QJsonValue \<Rightarrow> QString" where
  "toString v = (case v of JsonString s \<Rightarrow> s | _ \<Rightarrow> [])"

subsection \<open>Semantic versions\<close>

text \<open>
  Modelled from the spec: \<open>utils/SemanticVersion.h\<close> (\<open>SemanticVersion::fromString\<close> and
  the comparison operators) is not among the sources. The specification gives a version
  as major.minor.patch plus an optional pre-release tag, ordered by the numeric fields
  first and then by the tag, compared lexically; a string that does not parse is treated
  as "no update" (the comparison \<open>candidate \<le> current\<close> holds, so the flow fails closed).
\<close>

record SemanticVersion =
  major :: nat
  minor :: nat
  patch :: nat
  preRelease :: QString

text \<open>
  Modelled from the spec: the lexical comparison of two pre-release tags, character code by
  character code, a proper prefix first (\<open>SemanticVersion.h\<close> is missing).
\<close>

fun lexLess :: "QString \<Rightarrow> QString \<Rightarrow> bool" where
  "lexLess [] [] = False"
| "lexLess [] (y # ys) = True"
| "lexLess (x # xs) [] = False"
| "lexLess (x # xs) (y # ys) =
     ((of_char x :: nat) < of_char y \<or> (x = y \<and> lexLess xs ys))"

text \<open>
  Modelled from the spec: \<open>operator<\<close> of \<open>SemanticVersion\<close> (missing), the numeric fields
  first, then the tag.
\<close>

definition versionLess :: "SemanticVersion \<Rightarrow> SemanticVersion \<Rightarrow> bool" where
  "versionLess a b =
     (major a < major b \<or> (major a = major b \<and>
       (minor a < minor b \<or> (minor a = minor b \<and>
         (patch a < patch b \<or> (patch a = patch b \<and>
           lexLess (preRelease a) (preRelease b)))))))"

text \<open>
  Modelled from the spec: reading a decimal number, for \<open>SemanticVersion::fromString\<close>
  (missing); a character that is not a digit makes it fail.
\<close>

fun parseNat :: "QString \<Rightarrow> nat \<Rightarrow> nat option" where
  "parseNat [] acc = Some acc"
| "parseNat (c # cs) acc = (if isDigit c then parseNat cs (10 * acc + digitValue c) else None)"

text \<open>
  Modelled from the spec: one numeric field of a version (\<open>SemanticVersion.h\<close> is
  missing), at least one digit.
\<close>

definition number :: "QString \<Rightarrow> nat option" where
  "number s = (if s = [] then None else parseNat s 0)"

text \<open>
  Modelled from the spec: the fields between the dots of major.minor.patch
  (\<open>SemanticVersion.h\<close> is missing).
\<close>

fun splitDots :: "QString \<Rightarrow> QString \<Rightarrow> QString list" where
  "splitDots [] cur = [rev cur]"
| "splitDots (c # cs) cur = (if c = CHR ''.'' then rev cur # splitDots cs [] else splitDots cs (c # cur))"

text \<open>
  Modelled from the spec: \<open>SemanticVersion::fromString\<close> (missing). A version string is
  three dot-separated decimal numbers, optionally followed by a dash and the pre-release
  tag; anything else does not parse (\<open>None\<close>).
\<close>

definition fromString :: "QString \<Rightarrow> SemanticVersion option" where
  "fromString ver =
     (let core = takeWhile (\<lambda>c. c \<noteq> CHR ''-'') ver;
          tag = drop (Suc (length core)) ver
      in case map number (splitDots core []) of
           [Some a, Some b, Some c] \<Rightarrow> Some \<lparr>major = a, minor = b, patch = c, preRelease = tag\<rparr>
         | _ \<Rightarrow> None)"

text \<open>
  Modelled from the spec: \<open>operator<=\<close> of \<open>SemanticVersion\<close> (missing) on the results of
  \<open>fromString\<close>, as \<open>onUpdatesAvailable\<close> uses it. With an unparseable side the
  comparison holds, so that the check is abandoned.
\<close>

definition versionLe :: "SemanticVersion option \<Rightarrow> SemanticVersion option \<Rightarrow> bool" where
  "versionLe a b =
     (case a of None \<Rightarrow> True
      | Some x \<Rightarrow> (case b of None \<Rightarrow> True | Some y \<Rightarrow> versionLess x y \<or> x = y))"

text \<open>
  Modelled from the spec: \<open>isNewer(candidate, current)\<close>, which the source does not
  define. The check goes on exactly when the abort test \<open>candidate \<le> current\<close> of
  \<open>onUpdatesAvailable\<close> fails.
\<close>

definition isNewer :: "SemanticVersion option \<Rightarrow> SemanticVersion option \<Rightarrow> bool" where
  "isNewer a b = (\<not> versionLe a b)"

subsection \<open>Verification of the signed hashes\<close>

text \<open>
  Modelled from the spec: \<open>Updater::verifyParseSignedHashes\<close> (\<open>utils/Updater.h\<close>) is
  not among the sources. The specification says that it verifies the manifest's signature
  against the trusted signer keyring, extracts the signer identity, and extracts the hash
  entry whose key equals the expected binary filename, and that it fails on a bad
  signature, a missing entry and a malformed manifest. Opening the armored text is a
  parameter: \<open>openArmored\<close> gives no manifest for a malformed text, and otherwise the
  identity whose key the signature validates under (if any) and the entries.
\<close>

record SignedHashManifest =
  signedBy :: "QString option"
  entries :: "(QString \<times> QByteArray) list"

text \<open>
  Modelled from the spec: the reasons for which \<open>Updater::verifyParseSignedHashes\<close>
  (missing) throws.
\<close>

datatype VerificationFailure = MalformedManifest | BadSignature | MissingEntry

text \<open>
  Modelled from the spec: \<open>what()\<close> of the exception thrown by
  \<open>Updater::verifyParseSignedHashes\<close> (missing). The specification does not give the
  texts; no property depends on them.
\<close>

fun what :: "VerificationFailure \<Rightarrow> QString" where
  "what MalformedManifest = ''malformed manifest''"
| "what BadSignature = ''bad signature''"
| "what MissingEntry = ''hash not found''"

text \<open>
  Modelled from the spec: \<open>Updater::verifyParseSignedHashes\<close> (missing). \<open>Inl\<close> is the
  exception thrown; \<open>Inr\<close> is the hash returned, with the signer identity written to the
  reference argument.
\<close>

definition verifyParseSignedHashes ::
  "QString list \<Rightarrow> (QByteArray \<Rightarrow> SignedHashManifest option) \<Rightarrow> QByteArray \<Rightarrow> QString \<Rightarrow>
   VerificationFailure + (QByteArray \<times> QString)" where
  "verifyParseSignedHashes keyring openArmored armoredSignedHashes filename =
     (case openArmored armoredSignedHashes of
        None \<Rightarrow> Inl MalformedManifest
      | Some m \<Rightarrow>
          (case signedBy m of
             None \<Rightarrow> Inl BadSignature
           | Some s \<Rightarrow>
               if s \<notin> set keyring then Inl BadSignature
               else (case map_of (entries m) filename of
                       None \<Rightarrow> Inl MissingEntry
                     | Some h \<Rightarrow> Inr (h, s))))"

subsection \<open>The update check\<close>

definition disconnect :: "Button \<Rightarrow> Button" where
  "disconnect b = b\<lparr>clicked := []\<rparr>"

definition connect :: "VerifiedUpdate \<Rightarrow> Button \<Rightarrow> Button" where
  "connect slot b = b\<lparr>clicked := clicked b @ [slot]\<rparr>"

definition onCheckUpdatesComplete ::
  "QString \<Rightarrow> QString \<Rightarrow> QString \<Rightarrow> QString \<Rightarrow> MainWindow \<Rightarrow> MainWindow" where
  "onCheckUpdatesComplete ver binary hashHex signerId w =
     (let versionDisplay = replace ''beta'' ''Beta'' ver;
          updateText = arg ''Update to Feather %1 is available'' [versionDisplay];
          b = (m_statusUpdateAvailable w)
                \<lparr>buttonText := updateText,
                 buttonToolTip := ''Click to Download update.'',
                 visible := True\<rparr>
      in w\<lparr>m_statusUpdateAvailable :=
             connect \<lparr>version = ver, binaryFilename = binary, hash = hashHex, signer = signerId\<rparr>
               (disconnect b)\<rparr>)"

text \<open>\<open>onCheckUpdatesComplete\<close> called with the fields of a tuple.\<close>

definition notify :: "VerifiedUpdate \<Rightarrow> MainWindow \<Rightarrow> MainWindow" where
  "notify u w = onCheckUpdatesComplete (version u) (binaryFilename u) (hash u) (signer u) w"

text \<open>The arguments \<open>onShowUpdateCheck\<close> constructs the \<open>UpdateDialog\<close> with.\<close>

record UpdateDialog =
  dialogVersion :: QString
  downloadUrl :: QString
  dialogHash :: QString
  dialogSigner :: QString
  dialogPlatformTag :: QString

definition onShowUpdateCheck :: "Env \<Rightarrow> VerifiedUpdate \<Rightarrow> UpdateDialog" where
  "onShowUpdateCheck env u =
     (let platformTag = getPlatformTag (platform env);
          dlUrl = arg ''https://featherwallet.org/files/releases/%1/%2'' [platformTag, binaryFilename u]
      in \<lparr>dialogVersion = version u, downloadUrl = dlUrl, dialogHash = hash u,
          dialogSigner = signer u, dialogPlatformTag = platformTag\<rparr>)"

text \<open>A click on the button runs every connected slot; each opens its dialog.\<close>

definition click :: "Env \<Rightarrow> MainWindow \<Rightarrow> UpdateDialog list" where
  "click env w = map (onShowUpdateCheck env) (clicked (m_statusUpdateAvailable w))"

definition onUpdatesAvailable :: "Env \<Rightarrow> QJsonObject \<Rightarrow> MainWindow \<Rightarrow> MainWindow" where
  "onUpdatesAvailable env updates w =
     (let featherVersionStr = FEATHER_VERSION env;
          featherVersion = fromString featherVersionStr;
          platformTag = getPlatformTag (platform env)
      in if platformTag = [] then
           qWarning [''Unsupported platform, unable to fetch update''] w
         else
           let platformData = toObject (valueAt (toObject (valueAt updates ''platform'')) platformTag)
           in if platformData = [] then
                qWarning [''Unable to find current platform in updates data''] w
              else
                let newVersion = toString (valueAt platformData ''version'')
                in if versionLe (fromString newVersion) featherVersion then w
                   else
                     let hashesUrl = arg ''%1/files/releases/hashes-%2-plain.txt''
                                       [websiteUrl env, newVersion]
                     in w\<lparr>network := network w @
                            [\<lparr>url = hashesUrl, boundPlatformTag = platformTag,
                              boundVersion = newVersion\<rparr>]\<rparr>)"

text \<open>
  The finished reply: \<open>error()\<close> (0 is \<open>QNetworkReply::NoError\<close>), \<open>errorString()\<close> and
  the bytes \<open>readAll()\<close> returns.
\<close>

record QNetworkReply =
  error :: nat
  errorString :: QString
  readAll :: QByteArray

definition NoError :: nat where
  "NoError = 0"

text \<open>
  \<open>verify\<close> stands for the call of \<open>Updater().verifyParseSignedHashes\<close>: \<open>Inl\<close> is an
  exception thrown, \<open>Inr\<close> carries the returned hash and the signer written through the
  reference. \<open>runVerification\<close> is the lambda given to \<open>AsyncTask::runAndWaitForFuture\<close>:
  it catches the exception, logs it and returns the empty byte array.
\<close>

definition runVerification ::
  "(QByteArray \<Rightarrow> QString \<Rightarrow> VerificationFailure + (QByteArray \<times> QString)) \<Rightarrow>
   QByteArray \<Rightarrow> QString \<Rightarrow> MainWindow \<Rightarrow> QByteArray \<times> QString \<times> MainWindow" where
  "runVerification verify armoredSignedHashes binary w =
     (case verify armoredSignedHashes binary of
        Inr (signedHash, signerId) \<Rightarrow> (signedHash, signerId, w)
      | Inl e \<Rightarrow> ([], [], qWarning [''Failed to fetch and verify signed hash: '', what e] w))"

definition onSignedHashesReceived ::
  "(QByteArray \<Rightarrow> QString \<Rightarrow> VerificationFailure + (QByteArray \<times> QString)) \<Rightarrow>
   QNetworkReply \<Rightarrow> QString \<Rightarrow> QString \<Rightarrow> MainWindow \<Rightarrow> MainWindow" where
  "onSignedHashesReceived verify reply platformTag ver w =
     (if error reply \<noteq> NoError then
        qWarning [''Unable to fetch signed hashes: '', errorString reply] w
      else
        let armoredSignedHashes = readAll reply;
            binary = arg ''feather-%1-%2.zip'' [ver, platformTag];
            (signedHash, signerId, w1) = runVerification verify armoredSignedHashes binary w
        in if signedHash = [] then w1
           else
             let hashHex = toHex signedHash
             in onCheckUpdatesComplete ver binary hashHex signerId
                  (qInfo [''Update found: '', binary, hashHex, ''signed by:'', signerId] w1))"

subsection \<open>Concrete inputs\<close>

text \<open>Values of the parameters at which the theorems below are evaluated.\<close>

definition hidingConfig :: Config where
  "hidingConfig =
     \<lparr>hideBalance = True, balanceDisplay = 0, amountPrecision = 4, recentlyOpenedWallets = []\<rparr>"

definition configWithRecent :: "QString list \<Rightarrow> Config" where
  "configWithRecent recent =
     \<lparr>hideBalance = False, balanceDisplay = 0, amountPrecision = 4, recentlyOpenedWallets = recent\<rparr>"

definition balanceDisplayEnum :: BalanceDisplay where
  "balanceDisplayEnum = \<lparr>totalBalance = 0, spendable = 2, spendablePlusUnconfirmed = 1\<rparr>"

definition zeroOrMore :: "64 word \<Rightarrow> bool \<Rightarrow> int \<Rightarrow> QString" where
  "zeroOrMore amount trailing decimals = (if amount = 0 then ''0.0000'' else ''>0'')"

definition linuxBuild :: Platform where
  "linuxBuild = \<lparr>Q_OS_MACOS = False, Q_OS_WIN = False, PLATFORM_INSTALLER = False,
                  Q_OS_LINUX = True, APPIMAGE = []\<rparr>"

definition otherBuild :: Platform where
  "otherBuild = \<lparr>Q_OS_MACOS = False, Q_OS_WIN = False, PLATFORM_INSTALLER = False,
                  Q_OS_LINUX = False, APPIMAGE = []\<rparr>"

definition running :: "Platform \<Rightarrow> QString \<Rightarrow> Env" where
  "running P ver =
     \<lparr>platform = P, FEATHER_VERSION = ver, websiteUrl = ''https://featherwallet.org''\<rparr>"

definition feedFor :: "QString \<Rightarrow> QString \<Rightarrow> QJsonObject" where
  "feedFor tag ver =
     [(''platform'', JsonObject [(tag, JsonObject [(''version'', JsonString ver)])])]"

definition armoredText :: QByteArray where
  "armoredText = [45, 45, 45, 45, 45]"

definition fetched :: QNetworkReply where
  "fetched = \<lparr>error = 0, errorString = [], readAll = armoredText\<rparr>"

definition notFound :: QNetworkReply where
  "notFound = \<lparr>error = 203, errorString = ''Not Found'', readAll = []\<rparr>"

definition manifestWith :: "QString \<Rightarrow> QString \<Rightarrow> QByteArray \<Rightarrow> SignedHashManifest" where
  "manifestWith signerId file h = \<lparr>signedBy = Some signerId, entries = [(file, h)]\<rparr>"

text \<open>An \<open>openArmored\<close> under which \<open>armoredText\<close> is the armored form of one manifest.\<close>

definition opensTo :: "SignedHashManifest \<Rightarrow> QByteArray \<Rightarrow> SignedHashManifest option" where
  "opensTo m bytes = (if bytes = armoredText then Some m else None)"

definition window0 :: MainWindow where
  "window0 = initStatusBar (configWithRecent [])"

definition release130 :: VerifiedUpdate where
  "release130 = \<lparr>version = ''1.3.0'', binaryFilename = ''feather-1.3.0-linux.zip'',
                  hash = ''aa01'', signer = ''featherwallet''\<rparr>"

definition release140 :: VerifiedUpdate where
  "release140 = \<lparr>version = ''1.4.0-beta'', binaryFilename = ''feather-1.4.0-beta-linux.zip'',
                  hash = ''bb02'', signer = ''featherwallet''\<rparr>"

section \<open>Properties\<close>

subsection \<open>The list of recently opened wallets\<close>

lemma keepExisting_eq:
  "count = int (length acc) \<Longrightarrow> length acc < 5 \<Longrightarrow>
   keepExisting ex xs acc count = acc @ take (5 - length acc) (filter ex xs)"
proof (induction xs arbitrary: acc count)
  case Nil
  then show ?case by simp
next
  case (Cons x xs)
  show ?case
  proof (cases "ex x")
    case False
    with Cons show ?thesis by simp
  next
    case True
    show ?thesis
    proof (cases "length acc = 4")
      case True
      with \<open>ex x\<close> Cons.prems show ?thesis by simp
    next
      case False
      with Cons.prems have lt: "length (acc @ [x]) < 5" by simp
      have "keepExisting ex xs (acc @ [x]) (count + 1)
            = (acc @ [x]) @ take (5 - length (acc @ [x])) (filter ex xs)"
        by (rule Cons.IH) (use Cons.prems lt in simp_all)
      moreover have "5 - length acc = Suc (5 - length (acc @ [x]))"
        using lt by simp
      ultimately show ?thesis
        using \<open>ex x\<close> Cons.prems False by (simp del: length_append)
    qed
  qed
qed

lemma keepExisting_take_filter:
  "keepExisting ex xs [] 0 = take 5 (filter ex xs)"
  using keepExisting_eq [of 0 "[]" ex xs] by simp

lemma count_list_take_le: "count_list (take n xs) x \<le> count_list xs x"
proof (induction xs arbitrary: n)
  case Nil
  then show ?case by simp
next
  case (Cons a xs)
  then show ?case by (cases n) (auto intro: le_SucI)
qed

lemma count_list_filter_le: "count_list (filter P xs) x \<le> count_list xs x"
  by (induction xs) (auto intro: le_SucI)

lemma count_list_remove1: "count_list (remove1 x xs) x = count_list xs x - 1"
  by (induction xs) auto

lemma recent_after_add:
  "recentlyOpenedWallets (config (addToRecentlyOpened ex p w))
   = take 5 (filter ex (p # remove1 p (recentlyOpenedWallets (config w))))"
  by (simp add: addToRecentlyOpened_def updateRecentlyOpenedMenu_def Let_def
      keepExisting_take_filter remove1_idem del: keepExisting.simps)

text \<open>
  Claim C10, as stated: after every call of \<open>addToRecentlyOpened(path)\<close> the stored list
  contains no duplicate of the added path. \<open>removeOne\<close> takes out one occurrence only:
  when the stored list already holds the path twice and the file exists, the new list
  holds it twice.
\<close>

theorem addToRecentlyOpened_duplicate_counterexample:
  "recentlyOpenedWallets (config
     (addToRecentlyOpened (fileExistsOn [''/w/a.keys'']) ''/w/a.keys''
        (initStatusBar (configWithRecent [''/w/a.keys'', ''/w/a.keys'']))))
   = [''/w/a.keys'', ''/w/a.keys'']"
  by (simp add: addToRecentlyOpened_def updateRecentlyOpenedMenu_def initStatusBar_def
      configWithRecent_def fileExistsOn_def Let_def)

text \<open>
  Claim C10, amended: after every call of \<open>addToRecentlyOpened(path)\<close> the stored list has
  at most 5 entries, every entry is a file that exists, and when the path exists it is the
  first entry; the path occurs at most once in the new list whenever it occurred at most
  once in the list stored before, and a list without duplicates stays without duplicates.
\<close>

theorem addToRecentlyOpened_recent_list:
  "length (recentlyOpenedWallets (config (addToRecentlyOpened ex p w))) \<le> 5
   \<and> (\<forall>f \<in> set (recentlyOpenedWallets (config (addToRecentlyOpened ex p w))). ex f)
   \<and> (count_list (recentlyOpenedWallets (config w)) p \<le> 1 \<longrightarrow>
        count_list (recentlyOpenedWallets (config (addToRecentlyOpened ex p w))) p \<le> 1)
   \<and> (distinct (recentlyOpenedWallets (config w)) \<longrightarrow>
        distinct (recentlyOpenedWallets (config (addToRecentlyOpened ex p w))))
   \<and> (ex p \<longrightarrow> recentlyOpenedWallets (config (addToRecentlyOpened ex p w)) \<noteq> []
         \<and> hd (recentlyOpenedWallets (config (addToRecentlyOpened ex p w))) = p)"
proof -
  let ?stored = "recentlyOpenedWallets (config w)"
  let ?r = "recentlyOpenedWallets (config (addToRecentlyOpened ex p w))"
  have r: "?r = take 5 (filter ex (p # remove1 p ?stored))"
    by (rule recent_after_add)
  have a: "length ?r \<le> 5" by (simp add: r)
  have b: "\<forall>f \<in> set ?r. ex f"
  proof
    fix f assume "f \<in> set ?r"
    then have "f \<in> set (filter ex (p # remove1 p ?stored))"
      unfolding r by (rule in_set_takeD)
    then show "ex f" by (simp only: set_filter mem_Collect_eq)
  qed
  have c: "count_list ?r p \<le> 1" if "count_list ?stored p \<le> 1"
  proof -
    have "count_list ?r p \<le> count_list (filter ex (p # remove1 p ?stored)) p"
      unfolding r by (rule count_list_take_le)
    also have "\<dots> \<le> count_list (p # remove1 p ?stored) p"
      by (rule count_list_filter_le)
    also have "\<dots> = 1 + (count_list ?stored p - 1)"
      by (simp add: count_list_remove1)
    also have "\<dots> \<le> 1" using that by simp
    finally show ?thesis .
  qed
  have d: "distinct ?r" if "distinct ?stored"
  proof -
    from that have "distinct (p # remove1 p ?stored)" by simp
    then have "distinct (filter ex (p # remove1 p ?stored))" by (rule distinct_filter)
    then show ?thesis unfolding r by (rule distinct_take)
  qed
  have e: "?r \<noteq> [] \<and> hd ?r = p" if "ex p"
    using that by (simp add: r)
  from a b c d e show ?thesis by blast
qed

theorem addToRecentlyOpened_recent_list_witness:
  "count_list (recentlyOpenedWallets (config (initStatusBar
       (configWithRecent [''/w/b.keys'', ''/w/gone.keys'', ''/w/a.keys''])))) ''/w/a.keys'' \<le> 1
   \<and> distinct (recentlyOpenedWallets (config (initStatusBar
       (configWithRecent [''/w/b.keys'', ''/w/gone.keys'', ''/w/a.keys'']))))
   \<and> fileExistsOn [''/w/a.keys'', ''/w/b.keys''] ''/w/a.keys''
   \<and> recentlyOpenedWallets (config
        (addToRecentlyOpened (fileExistsOn [''/w/a.keys'', ''/w/b.keys'']) ''/w/a.keys''
           (initStatusBar (configWithRecent [''/w/b.keys'', ''/w/gone.keys'', ''/w/a.keys'']))))
      = [''/w/a.keys'', ''/w/b.keys'']
   \<and> count_list (recentlyOpenedWallets (config
        (addToRecentlyOpened (fileExistsOn [''/w/a.keys'', ''/w/b.keys'']) ''/w/a.keys''
           (initStatusBar (configWithRecent [''/w/b.keys'', ''/w/gone.keys'', ''/w/a.keys'']))))) ''/w/a.keys'' \<le> 1
   \<and> hd (recentlyOpenedWallets (config
        (addToRecentlyOpened (fileExistsOn [''/w/a.keys'', ''/w/b.keys'']) ''/w/a.keys''
           (initStatusBar (configWithRecent [''/w/b.keys'', ''/w/gone.keys'', ''/w/a.keys'']))))) = ''/w/a.keys''"
proof -
  let ?w = "initStatusBar (configWithRecent [''/w/b.keys'', ''/w/gone.keys'', ''/w/a.keys''])"
  let ?ex = "fileExistsOn [''/w/a.keys'', ''/w/b.keys'']"
  have stored: "recentlyOpenedWallets (config ?w) = [''/w/b.keys'', ''/w/gone.keys'', ''/w/a.keys'']"
    by (simp add: initStatusBar_def configWithRecent_def)
  have h1: "count_list (recentlyOpenedWallets (config ?w)) ''/w/a.keys'' \<le> 1"
    by (simp add: stored)
  have h2: "distinct (recentlyOpenedWallets (config ?w))"
    by (simp add: stored)
  have h3: "?ex ''/w/a.keys''"
    by (simp add: fileExistsOn_def)
  have r: "recentlyOpenedWallets (config (addToRecentlyOpened ?ex ''/w/a.keys'' ?w))
           = [''/w/a.keys'', ''/w/b.keys'']"
    by (simp add: addToRecentlyOpened_def updateRecentlyOpenedMenu_def initStatusBar_def
        configWithRecent_def fileExistsOn_def Let_def)
  from addToRecentlyOpened_recent_list [of ?ex "''/w/a.keys''" ?w] h1 h3
  have "count_list (recentlyOpenedWallets (config (addToRecentlyOpened ?ex ''/w/a.keys'' ?w)))
          ''/w/a.keys'' \<le> 1
        \<and> hd (recentlyOpenedWallets (config (addToRecentlyOpened ?ex ''/w/a.keys'' ?w)))
          = ''/w/a.keys''"
    by blast
  with h1 h2 h3 r show ?thesis by blast
qed

subsection \<open>The balance label\<close>

text \<open>
  Claim C9: for every pair of balance and spendable amount, when the hide-balance flag is
  set, \<open>onBalanceUpdated\<close> sets the balance label to \<open>Balance: HIDDEN\<close> and hides the
  balance ticker; two runs with different amounts (and whatever \<open>displayAmount\<close> prints)
  leave the same state.
\<close>

theorem onBalanceUpdated_hidden:
  "hideBalance (config w) \<Longrightarrow>
   labelText (m_statusLabelBalance (onBalanceUpdated E displayAmount balance spendableAmount w))
     = ''Balance: HIDDEN''
   \<and> m_balanceTickerWidget_hidden (onBalanceUpdated E displayAmount balance spendableAmount w)
   \<and> onBalanceUpdated E displayAmount balance spendableAmount w
     = onBalanceUpdated E displayAmount' balance' spendableAmount' w"
  by (simp add: onBalanceUpdated_def Let_def)

theorem onBalanceUpdated_hidden_witness:
  "hideBalance (config (initStatusBar hidingConfig))
   \<and> (labelText (m_statusLabelBalance
         (onBalanceUpdated balanceDisplayEnum zeroOrMore 5000000000000 1000000000000
            (initStatusBar hidingConfig)))
       = ''Balance: HIDDEN''
      \<and> m_balanceTickerWidget_hidden
         (onBalanceUpdated balanceDisplayEnum zeroOrMore 5000000000000 1000000000000
            (initStatusBar hidingConfig))
      \<and> onBalanceUpdated balanceDisplayEnum zeroOrMore 5000000000000 1000000000000
           (initStatusBar hidingConfig)
        = onBalanceUpdated balanceDisplayEnum zeroOrMore 7 0 (initStatusBar hidingConfig))"
proof -
  have h: "hideBalance (config (initStatusBar hidingConfig))"
    by (simp add: initStatusBar_def hidingConfig_def)
  show ?thesis
    by (rule conjI [OF h onBalanceUpdated_hidden [OF h]])
qed

subsection \<open>The click handler of the update button\<close>

lemma clicked_onCheckUpdatesComplete:
  "clicked (m_statusUpdateAvailable (onCheckUpdatesComplete v b h s w))
   = [\<lparr>version = v, binaryFilename = b, hash = h, signer = s\<rparr>]"
  by (simp add: onCheckUpdatesComplete_def connect_def disconnect_def Let_def)

text \<open>
  Claim C8: after every update check that hands over a verified update, however many were
  handed over before, the update button has exactly one click handler, and a click opens
  the update dialog for the update verified last: \<open>onCheckUpdatesComplete\<close> disconnects
  the handlers connected before it connects the new one.
\<close>

theorem one_handler_for_latest_update:
  "us \<noteq> [] \<Longrightarrow>
   clicked (m_statusUpdateAvailable (fold notify us w)) = [last us]
   \<and> click env (fold notify us w) = [onShowUpdateCheck env (last us)]
   \<and> dialogVersion (onShowUpdateCheck env (last us)) = version (last us)
   \<and> dialogHash (onShowUpdateCheck env (last us)) = hash (last us)
   \<and> dialogSigner (onShowUpdateCheck env (last us)) = signer (last us)"
proof -
  assume "us \<noteq> []"
  then obtain vs u where us: "us = vs @ [u]"
    by (metis rev_exhaust)
  have "clicked (m_statusUpdateAvailable (fold notify us w)) = [last us]"
    by (simp add: us notify_def clicked_onCheckUpdatesComplete)
  then show ?thesis
    by (simp add: click_def onShowUpdateCheck_def Let_def)
qed

theorem one_handler_for_latest_update_witness:
  "[release130, release140] \<noteq> []
   \<and> clicked (m_statusUpdateAvailable (fold notify [release130, release140] window0))
     = [release140]
   \<and> click (running linuxBuild ''1.2.0'') (fold notify [release130, release140] window0)
     = [onShowUpdateCheck (running linuxBuild ''1.2.0'') release140]"
proof -
  have h: "[release130, release140] \<noteq> []" by simp
  from one_handler_for_latest_update [OF h, of window0 "running linuxBuild ''1.2.0''"] h
  show ?thesis by simp
qed

subsection \<open>Place markers and the version order\<close>

lemma arg_hashesUrl:
  "arg ''%1/files/releases/hashes-%2-plain.txt'' [host, ver]
   = host @ ''/files/releases/hashes-'' @ ver @ ''-plain.txt''"
  by (simp add: isDigit_def digitValue_def marker_def)

lemma arg_binaryFilename:
  "arg ''feather-%1-%2.zip'' [ver, tag] = ''feather-'' @ ver @ ''-'' @ tag @ ''.zip''"
  by (simp add: isDigit_def digitValue_def marker_def)

lemma arg_downloadUrl:
  "arg ''https://featherwallet.org/files/releases/%1/%2'' [tag, binary]
   = ''https://featherwallet.org/files/releases/'' @ tag @ ''/'' @ binary"
  by (simp add: isDigit_def digitValue_def marker_def)

lemma lexLess_irrefl: "\<not> lexLess s s"
  by (induction s) auto

lemma lexLess_asym: "lexLess s t \<Longrightarrow> \<not> lexLess t s"
  by (induction s t rule: lexLess.induct) auto

lemma versionLess_irrefl: "\<not> versionLess a a"
  by (simp add: versionLess_def lexLess_irrefl)

lemma versionLess_asym: "versionLess a b \<Longrightarrow> \<not> versionLess b a"
  unfolding versionLess_def using lexLess_asym by (metis less_asym' order_less_irrefl)

lemma lexLess_total: "lexLess s t \<or> s = t \<or> lexLess t s"
proof (induction s t rule: lexLess.induct)
  case (4 x xs y ys)
  have "(of_char x :: nat) < of_char y \<or> x = y \<or> (of_char y :: nat) < of_char x"
    by (metis linorder_neqE_nat of_char_eq_iff)
  with 4 show ?case by auto
qed simp_all

lemma versionLess_total: "versionLess a b \<or> a = b \<or> versionLess b a"
proof -
  have "a = b" if "major a = major b" "minor a = minor b" "patch a = patch b"
    "preRelease a = preRelease b"
    using that by (cases a, cases b) simp
  then show ?thesis
    unfolding versionLess_def using lexLess_total [of "preRelease a" "preRelease b"]
    by (metis linorder_neqE_nat)
qed

lemma isNewer_iff: "isNewer (Some a) (Some b) \<longleftrightarrow> versionLess b a"
  using versionLess_total [of a b] versionLess_asym [of a b] versionLess_irrefl [of a]
  by (auto simp: isNewer_def versionLe_def)

lemma fromString_empty: "fromString [] = None"
  by (simp add: fromString_def number_def)

lemma announced_of_missing:
  "toString (valueAt [] ''version'') = []"
  by (simp add: toString_def valueAt_def)

lemma newer_130beta_120: "isNewer (fromString ''1.3.0-beta'') (fromString ''1.2.0'')"
  by (simp add: isNewer_def versionLe_def versionLess_def fromString_def number_def
      isDigit_def digitValue_def)

subsection \<open>\<open>MainWindow::onUpdatesAvailable\<close>\<close>

lemma updates_not_newer:
  "versionLe (fromString (toString (valueAt (toObject (valueAt (toObject (valueAt updates ''platform''))
       (getPlatformTag (platform env)))) ''version''))) (fromString (FEATHER_VERSION env)) \<Longrightarrow>
   network (onUpdatesAvailable env updates w) = network w
   \<and> m_statusUpdateAvailable (onUpdatesAvailable env updates w) = m_statusUpdateAvailable w"
  by (simp add: onUpdatesAvailable_def Let_def qWarning_def)

lemma fetch_when_newer:
  assumes "getPlatformTag (platform env) = tag" and "tag \<noteq> []"
    and "toString (valueAt (toObject (valueAt (toObject (valueAt updates ''platform'')) tag))
           ''version'') = newVersion"
    and "isNewer (fromString newVersion) (fromString (FEATHER_VERSION env))"
  shows "onUpdatesAvailable env updates w
         = w\<lparr>network := network w @
               [\<lparr>url = websiteUrl env @ ''/files/releases/hashes-'' @ newVersion @ ''-plain.txt'',
                 boundPlatformTag = tag, boundVersion = newVersion\<rparr>]\<rparr>"
proof -
  have "toObject (valueAt (toObject (valueAt updates ''platform'')) tag) \<noteq> []"
  proof
    assume "toObject (valueAt (toObject (valueAt updates ''platform'')) tag) = []"
    with assms(3) have "newVersion = []" by (simp add: announced_of_missing)
    with assms(4) show False by (simp add: isNewer_def versionLe_def fromString_empty)
  qed
  with assms show ?thesis
    by (simp add: onUpdatesAvailable_def Let_def isNewer_def arg_hashesUrl del: arg.simps)
qed

text \<open>
  Claim C4: when the platform tag is the empty string (unsupported platform), or the feed
  has no entry for the platform tag, the update check ends with one warning in the log and
  nothing else: no request is sent and the update button is as it was.
\<close>

theorem no_platform_no_request:
  "(getPlatformTag (platform env) = [] \<longrightarrow>
      onUpdatesAvailable env updates w
      = qWarning [''Unsupported platform, unable to fetch update''] w)
   \<and> (getPlatformTag (platform env) \<noteq> [] \<and>
       map_of (toObject (valueAt updates ''platform'')) (getPlatformTag (platform env)) = None \<longrightarrow>
      onUpdatesAvailable env updates w
      = qWarning [''Unable to find current platform in updates data''] w)
   \<and> (getPlatformTag (platform env) = [] \<or>
       map_of (toObject (valueAt updates ''platform'')) (getPlatformTag (platform env)) = None \<longrightarrow>
      network (onUpdatesAvailable env updates w) = network w
      \<and> m_statusUpdateAvailable (onUpdatesAvailable env updates w) = m_statusUpdateAvailable w)"
  by (auto simp: onUpdatesAvailable_def Let_def qWarning_def valueAt_def toObject_def
      simp del: arg.simps)

theorem no_platform_no_request_witness:
  "(getPlatformTag (platform (running otherBuild ''1.2.0'')) = []
    \<and> onUpdatesAvailable (running otherBuild ''1.2.0'') (feedFor ''linux'' ''1.3.0'') window0
      = qWarning [''Unsupported platform, unable to fetch update''] window0
    \<and> network (onUpdatesAvailable (running otherBuild ''1.2.0'') (feedFor ''linux'' ''1.3.0'') window0)
      = network window0)
   \<and> (getPlatformTag (platform (running linuxBuild ''1.2.0'')) \<noteq> []
    \<and> map_of (toObject (valueAt (feedFor ''mac'' ''1.3.0'') ''platform''))
         (getPlatformTag (platform (running linuxBuild ''1.2.0''))) = None
    \<and> onUpdatesAvailable (running linuxBuild ''1.2.0'') (feedFor ''mac'' ''1.3.0'') window0
      = qWarning [''Unable to find current platform in updates data''] window0
    \<and> network (onUpdatesAvailable (running linuxBuild ''1.2.0'') (feedFor ''mac'' ''1.3.0'') window0)
      = network window0)"
proof -
  have h: "getPlatformTag (platform (running otherBuild ''1.2.0'')) = []"
    by (simp add: getPlatformTag_def running_def otherBuild_def)
  have t: "getPlatformTag (platform (running linuxBuild ''1.2.0'')) = ''linux''"
    by (simp add: getPlatformTag_def running_def linuxBuild_def)
  have k1: "getPlatformTag (platform (running linuxBuild ''1.2.0'')) \<noteq> []"
    by (simp add: t)
  have k2: "map_of (toObject (valueAt (feedFor ''mac'' ''1.3.0'') ''platform''))
              (getPlatformTag (platform (running linuxBuild ''1.2.0''))) = None"
    by (simp add: t feedFor_def valueAt_def toObject_def)
  from no_platform_no_request [of "running otherBuild ''1.2.0''" "feedFor ''linux'' ''1.3.0''" window0]
    h
  have first: "onUpdatesAvailable (running otherBuild ''1.2.0'') (feedFor ''linux'' ''1.3.0'') window0
      = qWarning [''Unsupported platform, unable to fetch update''] window0
    \<and> network (onUpdatesAvailable (running otherBuild ''1.2.0'') (feedFor ''linux'' ''1.3.0'') window0)
      = network window0"
    by blast
  from no_platform_no_request [of "running linuxBuild ''1.2.0''" "feedFor ''mac'' ''1.3.0''" window0]
    k1 k2
  have second: "onUpdatesAvailable (running linuxBuild ''1.2.0'') (feedFor ''mac'' ''1.3.0'') window0
      = qWarning [''Unable to find current platform in updates data''] window0
    \<and> network (onUpdatesAvailable (running linuxBuild ''1.2.0'') (feedFor ''mac'' ''1.3.0'') window0)
      = network window0"
    by blast
  from h k1 k2 first second show ?thesis by blast
qed

text \<open>
  Claim C3: when \<open>a\<close> is greater than \<open>b\<close> in the version order, \<open>isNewer a b\<close> holds and
  \<open>isNewer b a\<close> does not (\<open>isNewer\<close> is exactly "greater" on parsed versions); for equal
  versions it holds in neither direction; an unparseable version is never newer; and
  whenever the announced version is not newer than the running one (unparseable included)
  \<open>onUpdatesAvailable\<close> sends no request and leaves the update button as it was.
\<close>

theorem newer_only_one_way_and_stale_aborts:
  "(versionLess b a \<longrightarrow> isNewer (Some a) (Some b) \<and> \<not> isNewer (Some b) (Some a))
   \<and> (isNewer (Some a) (Some b) \<longleftrightarrow> versionLess b a)
   \<and> \<not> isNewer v v
   \<and> \<not> isNewer None v
   \<and> (\<not> isNewer
          (fromString (toString (valueAt (toObject (valueAt (toObject (valueAt updates ''platform''))
             (getPlatformTag (platform env)))) ''version'')))
          (fromString (FEATHER_VERSION env)) \<longrightarrow>
        network (onUpdatesAvailable env updates w) = network w
        \<and> m_statusUpdateAvailable (onUpdatesAvailable env updates w) = m_statusUpdateAvailable w)"
proof -
  have 1: "isNewer (Some a) (Some b) \<and> \<not> isNewer (Some b) (Some a)" if "versionLess b a"
    using that versionLess_asym [OF that] versionLess_irrefl [of a]
    by (auto simp: isNewer_def versionLe_def)
  have 2: "\<not> isNewer v v"
    by (cases v) (simp_all add: isNewer_def versionLe_def)
  have 3: "\<not> isNewer None v"
    by (simp add: isNewer_def versionLe_def)
  from 1 2 3 isNewer_iff [of a b] updates_not_newer [of updates env w] show ?thesis
    unfolding isNewer_def by blast
qed

theorem newer_only_one_way_and_stale_aborts_witness:
  "versionLess \<lparr>major = 1, minor = 2, patch = 0, preRelease = []\<rparr>
               \<lparr>major = 1, minor = 3, patch = 0, preRelease = ''beta''\<rparr>
   \<and> isNewer (Some \<lparr>major = 1, minor = 3, patch = 0, preRelease = ''beta''\<rparr>)
              (Some \<lparr>major = 1, minor = 2, patch = 0, preRelease = []\<rparr>)
   \<and> \<not> isNewer (Some \<lparr>major = 1, minor = 2, patch = 0, preRelease = []\<rparr>)
                (Some \<lparr>major = 1, minor = 3, patch = 0, preRelease = ''beta''\<rparr>)
   \<and> \<not> isNewer (fromString ''latest'') (fromString ''1.2.0'')
   \<and> network (onUpdatesAvailable (running linuxBuild ''1.2.0'') (feedFor ''linux'' ''latest'') window0)
     = []"
proof -
  have h1: "versionLess \<lparr>major = 1, minor = 2, patch = 0, preRelease = []\<rparr>
               \<lparr>major = 1, minor = 3, patch = 0, preRelease = ''beta''\<rparr>"
    by (simp add: versionLess_def)
  have t: "getPlatformTag (platform (running linuxBuild ''1.2.0'')) = ''linux''"
    by (simp add: getPlatformTag_def running_def linuxBuild_def)
  have v: "toString (valueAt (toObject (valueAt (toObject
              (valueAt (feedFor ''linux'' ''latest'') ''platform'')) ''linux'')) ''version'')
            = ''latest''"
    by (simp add: feedFor_def valueAt_def toObject_def toString_def)
  have f: "FEATHER_VERSION (running linuxBuild ''1.2.0'') = ''1.2.0''"
    by (simp add: running_def)
  have h2: "\<not> isNewer (fromString ''latest'') (fromString ''1.2.0'')"
    by (simp add: isNewer_def versionLe_def fromString_def number_def isDigit_def digitValue_def)
  have n: "network window0 = []" by (simp add: window0_def initStatusBar_def)
  from newer_only_one_way_and_stale_aborts
    [of "\<lparr>major = 1, minor = 2, patch = 0, preRelease = []\<rparr>"
        "\<lparr>major = 1, minor = 3, patch = 0, preRelease = ''beta''\<rparr>"
        None "feedFor ''linux'' ''latest''" "running linuxBuild ''1.2.0''" window0]
    h1 h2 n
  show ?thesis by (simp add: t v f)
qed

text \<open>
  Claim C6: whenever the announced version is newer than the running version on a supported
  platform, \<open>onUpdatesAvailable\<close> sends one GET request, to
  \<open>websiteUrl/files/releases/hashes-VERSION-plain.txt\<close>, a URL made of the base host and
  the announced version only.
\<close>

theorem newer_version_fetches_hashes:
  assumes "getPlatformTag (platform env) = tag" and "tag \<noteq> []"
    and "toString (valueAt (toObject (valueAt (toObject (valueAt updates ''platform'')) tag))
           ''version'') = newVersion"
    and "isNewer (fromString newVersion) (fromString (FEATHER_VERSION env))"
  shows "onUpdatesAvailable env updates w
         = w\<lparr>network := network w @
               [\<lparr>url = websiteUrl env @ ''/files/releases/hashes-'' @ newVersion @ ''-plain.txt'',
                 boundPlatformTag = tag, boundVersion = newVersion\<rparr>]\<rparr>"
  by (rule fetch_when_newer [OF assms])

theorem newer_version_fetches_hashes_witness:
  "getPlatformTag (platform (running linuxBuild ''1.2.0'')) = ''linux''
   \<and> isNewer (fromString ''1.3.0'') (fromString (FEATHER_VERSION (running linuxBuild ''1.2.0'')))
   \<and> network (onUpdatesAvailable (running linuxBuild ''1.2.0'') (feedFor ''linux'' ''1.3.0'') window0)
     = [\<lparr>url = ''https://featherwallet.org/files/releases/hashes-1.3.0-plain.txt'',
         boundPlatformTag = ''linux'', boundVersion = ''1.3.0''\<rparr>]"
proof -
  have h1: "getPlatformTag (platform (running linuxBuild ''1.2.0'')) = ''linux''"
    by (simp add: getPlatformTag_def running_def linuxBuild_def)
  have h2: "''linux'' \<noteq> []" by simp
  have h3: "toString (valueAt (toObject (valueAt (toObject
              (valueAt (feedFor ''linux'' ''1.3.0'') ''platform'')) ''linux'')) ''version'')
            = ''1.3.0''"
    by (simp add: feedFor_def valueAt_def toObject_def toString_def)
  have h4: "isNewer (fromString ''1.3.0'') (fromString (FEATHER_VERSION (running linuxBuild ''1.2.0'')))"
    by (simp add: running_def isNewer_def versionLe_def versionLess_def fromString_def number_def
        isDigit_def digitValue_def)
  have n: "network window0 = []" "websiteUrl (running linuxBuild ''1.2.0'') = ''https://featherwallet.org''"
    by (simp_all add: window0_def initStatusBar_def running_def)
  from newer_version_fetches_hashes [OF h1 h2 h3 h4, of window0] h1 h4 n
  show ?thesis by simp
qed

subsection \<open>\<open>MainWindow::onSignedHashesReceived\<close>\<close>

lemma received_error:
  "error reply \<noteq> NoError \<Longrightarrow>
   onSignedHashesReceived verify reply tag ver w
   = qWarning [''Unable to fetch signed hashes: '', errorString reply] w"
  by (simp add: onSignedHashesReceived_def)

lemma received_thrown:
  "error reply = NoError \<Longrightarrow>
   verify (readAll reply) (''feather-'' @ ver @ ''-'' @ tag @ ''.zip'') = Inl e \<Longrightarrow>
   onSignedHashesReceived verify reply tag ver w
   = qWarning [''Failed to fetch and verify signed hash: '', what e] w"
  by (simp add: onSignedHashesReceived_def runVerification_def arg_binaryFilename Let_def
      del: arg.simps)

lemma received_empty:
  "error reply = NoError \<Longrightarrow>
   verify (readAll reply) (''feather-'' @ ver @ ''-'' @ tag @ ''.zip'') = Inr ([], s) \<Longrightarrow>
   onSignedHashesReceived verify reply tag ver w = w"
  by (simp add: onSignedHashesReceived_def runVerification_def arg_binaryFilename Let_def
      del: arg.simps)

lemma received_verified:
  "error reply = NoError \<Longrightarrow>
   verify (readAll reply) (''feather-'' @ ver @ ''-'' @ tag @ ''.zip'') = Inr (h, s) \<Longrightarrow>
   h \<noteq> [] \<Longrightarrow>
   onSignedHashesReceived verify reply tag ver w
   = onCheckUpdatesComplete ver (''feather-'' @ ver @ ''-'' @ tag @ ''.zip'') (toHex h) s
       (qInfo [''Update found: '', ''feather-'' @ ver @ ''-'' @ tag @ ''.zip'', toHex h,
               ''signed by:'', s] w)"
  by (simp add: onSignedHashesReceived_def runVerification_def arg_binaryFilename Let_def
      del: arg.simps)

lemma verify_Inr_iff:
  "verifyParseSignedHashes keyring openArmored bytes filename = Inr (h, s)
   \<longleftrightarrow> (\<exists>m. openArmored bytes = Some m \<and> signedBy m = Some s \<and> s \<in> set keyring
             \<and> map_of (entries m) filename = Some h)"
  by (auto simp: verifyParseSignedHashes_def split: option.splits)

text \<open>
  Claim C5: when the reply of the fetch carries an error, \<open>onSignedHashesReceived\<close> writes
  one warning and returns: the result does not depend on the verifier (it is not called),
  the update button is as it was, and nothing but the log changes.
\<close>

theorem fetch_failure_aborts:
  "error reply \<noteq> NoError \<Longrightarrow>
   onSignedHashesReceived verify reply tag ver w
     = qWarning [''Unable to fetch signed hashes: '', errorString reply] w
   \<and> onSignedHashesReceived verify reply tag ver w
     = onSignedHashesReceived verify' reply tag ver w
   \<and> m_statusUpdateAvailable (onSignedHashesReceived verify reply tag ver w)
     = m_statusUpdateAvailable w
   \<and> network (onSignedHashesReceived verify reply tag ver w) = network w"
  by (simp add: received_error qWarning_def)

theorem fetch_failure_aborts_witness:
  "error notFound \<noteq> NoError
   \<and> onSignedHashesReceived
        (verifyParseSignedHashes [''featherwallet'']
           (opensTo (manifestWith ''featherwallet'' ''feather-1.3.0-linux.zip'' [222, 173])))
        notFound ''linux'' ''1.3.0'' window0
     = qWarning [''Unable to fetch signed hashes: '', errorString notFound] window0
   \<and> m_statusUpdateAvailable (onSignedHashesReceived
        (verifyParseSignedHashes [''featherwallet'']
           (opensTo (manifestWith ''featherwallet'' ''feather-1.3.0-linux.zip'' [222, 173])))
        notFound ''linux'' ''1.3.0'' window0)
     = m_statusUpdateAvailable window0"
proof -
  have h: "error notFound \<noteq> NoError" by (simp add: notFound_def NoError_def)
  from fetch_failure_aborts [OF h, of
      "verifyParseSignedHashes [''featherwallet'']
           (opensTo (manifestWith ''featherwallet'' ''feather-1.3.0-linux.zip'' [222, 173]))"
      "''linux''" "''1.3.0''" window0] h
  show ?thesis by blast
qed

text \<open>
  Claim C1: a verified update is handed to \<open>onCheckUpdatesComplete\<close> only when the
  signature of the fetched manifest validates under a signer of the keyring and the
  manifest has a hash entry whose key is the expected binary filename; in every run where
  the fetch or the verification fails (bad signature, missing entry, malformed manifest)
  the window is left as it was but for one warning in the log, made of a fixed text and
  the error string of the reply or the message of the exception. In every run the window
  is unchanged, or has that one warning more, or the manifest verified and the update
  handed over carries the hash of that entry and the signer.
\<close>

theorem verified_update_only_from_verified_manifest:
  fixes keyring openArmored reply tag ver w
  defines "filename \<equiv> ''feather-'' @ ver @ ''-'' @ tag @ ''.zip''"
    and "w' \<equiv> onSignedHashesReceived (verifyParseSignedHashes keyring openArmored) reply tag ver w"
  shows
  "(\<not> (error reply = NoError \<and>
        (\<exists>m s h. openArmored (readAll reply) = Some m \<and> signedBy m = Some s \<and> s \<in> set keyring
                  \<and> map_of (entries m) filename = Some h))
     \<longrightarrow> w' = qWarning [''Unable to fetch signed hashes: '', errorString reply] w
         \<or> (\<exists>e. w' = qWarning [''Failed to fetch and verify signed hash: '', what e] w))
   \<and> (w' = w
      \<or> w' = qWarning [''Unable to fetch signed hashes: '', errorString reply] w
      \<or> (\<exists>e. w' = qWarning [''Failed to fetch and verify signed hash: '', what e] w)
      \<or> (\<exists>m s h. error reply = NoError \<and> openArmored (readAll reply) = Some m
                   \<and> signedBy m = Some s \<and> s \<in> set keyring
                   \<and> map_of (entries m) filename = Some h \<and> h \<noteq> []
                   \<and> w' = onCheckUpdatesComplete ver filename (toHex h) s
                            (qInfo [''Update found: '', filename, toHex h, ''signed by:'', s] w)))"
proof (cases "error reply = NoError")
  case False
  then have "w' = qWarning [''Unable to fetch signed hashes: '', errorString reply] w"
    unfolding w'_def by (rule received_error)
  then show ?thesis by blast
next
  case ok: True
  show ?thesis
  proof (cases "verifyParseSignedHashes keyring openArmored (readAll reply) filename")
    case (Inl e)
    then have "w' = qWarning [''Failed to fetch and verify signed hash: '', what e] w"
      unfolding w'_def filename_def by (rule received_thrown [OF ok])
    then show ?thesis by blast
  next
    case (Inr r)
    obtain h s where r: "r = (h, s)" by (cases r)
    from Inr r obtain m where m: "openArmored (readAll reply) = Some m" "signedBy m = Some s"
      "s \<in> set keyring" "map_of (entries m) filename = Some h"
      by (auto simp: verify_Inr_iff)
    show ?thesis
    proof (cases "h = []")
      case True
      with Inr r have "w' = w"
        unfolding w'_def filename_def by (simp add: received_empty [OF ok])
      with ok m show ?thesis by blast
    next
      case False
      from Inr r have "w' = onCheckUpdatesComplete ver filename (toHex h) s
                            (qInfo [''Update found: '', filename, toHex h, ''signed by:'', s] w)"
        unfolding w'_def filename_def by (simp add: received_verified [OF ok _ False])
      with ok m False show ?thesis by blast
    qed
  qed
qed

theorem verified_update_only_from_verified_manifest_witness:
  "\<not> (error fetched = NoError \<and>
       (\<exists>m s h. opensTo (manifestWith ''mallory'' ''feather-1.3.0-linux.zip'' [222, 173])
                   (readAll fetched) = Some m
                 \<and> signedBy m = Some s \<and> s \<in> set [''featherwallet'']
                 \<and> map_of (entries m) (''feather-'' @ ''1.3.0'' @ ''-'' @ ''linux'' @ ''.zip'') = Some h))
   \<and> (onSignedHashesReceived
         (verifyParseSignedHashes [''featherwallet'']
            (opensTo (manifestWith ''mallory'' ''feather-1.3.0-linux.zip'' [222, 173])))
         fetched ''linux'' ''1.3.0'' window0
       = qWarning [''Unable to fetch signed hashes: '', errorString fetched] window0
      \<or> (\<exists>e. onSignedHashesReceived
                 (verifyParseSignedHashes [''featherwallet'']
                    (opensTo (manifestWith ''mallory'' ''feather-1.3.0-linux.zip'' [222, 173])))
                 fetched ''linux'' ''1.3.0'' window0
               = qWarning [''Failed to fetch and verify signed hash: '', what e] window0))"
proof -
  have h: "\<not> (error fetched = NoError \<and>
       (\<exists>m s h. opensTo (manifestWith ''mallory'' ''feather-1.3.0-linux.zip'' [222, 173])
                   (readAll fetched) = Some m
                 \<and> signedBy m = Some s \<and> s \<in> set [''featherwallet'']
                 \<and> map_of (entries m) (''feather-'' @ ''1.3.0'' @ ''-'' @ ''linux'' @ ''.zip'') = Some h))"
    by (auto simp: opensTo_def manifestWith_def fetched_def)
  from verified_update_only_from_verified_manifest
    [of fetched "opensTo (manifestWith ''mallory'' ''feather-1.3.0-linux.zip'' [222, 173])"
        "[''featherwallet'']" "''1.3.0''" "''linux''" window0] h
  show ?thesis by blast
qed

text \<open>
  Claim C2: for every validly signed manifest that has an entry for the expected binary
  filename, one run of \<open>onSignedHashesReceived\<close> calls \<open>onCheckUpdatesComplete\<close> once;
  afterwards the update button is visible and carries exactly one verified update, whose
  hash is the hexadecimal form of the entry's hash and whose signer is the identity the
  verification extracted. The entry's value is a content hash, a byte string that is not
  empty (\<open>h \<noteq> []\<close>): the empty byte array is what the handler's lambda returns for a
  verification that threw, and never the hash of a file.
\<close>

theorem verified_manifest_one_update:
  assumes "error reply = NoError"
    and "openArmored (readAll reply) = Some m"
    and "signedBy m = Some s" and "s \<in> set keyring"
    and "map_of (entries m) (''feather-'' @ ver @ ''-'' @ tag @ ''.zip'') = Some h"
    and "h \<noteq> []"
  shows "onSignedHashesReceived (verifyParseSignedHashes keyring openArmored) reply tag ver w
         = onCheckUpdatesComplete ver (''feather-'' @ ver @ ''-'' @ tag @ ''.zip'') (toHex h) s
             (qInfo [''Update found: '', ''feather-'' @ ver @ ''-'' @ tag @ ''.zip'', toHex h,
                     ''signed by:'', s] w)
       \<and> clicked (m_statusUpdateAvailable
            (onSignedHashesReceived (verifyParseSignedHashes keyring openArmored) reply tag ver w))
         = [\<lparr>version = ver, binaryFilename = ''feather-'' @ ver @ ''-'' @ tag @ ''.zip'',
             hash = toHex h, signer = s\<rparr>]
       \<and> visible (m_statusUpdateAvailable
            (onSignedHashesReceived (verifyParseSignedHashes keyring openArmored) reply tag ver w))"
proof -
  from assms(2-5)
  have v: "verifyParseSignedHashes keyring openArmored (readAll reply)
             (''feather-'' @ ver @ ''-'' @ tag @ ''.zip'') = Inr (h, s)"
    unfolding verify_Inr_iff by blast
  have r: "onSignedHashesReceived (verifyParseSignedHashes keyring openArmored) reply tag ver w
         = onCheckUpdatesComplete ver (''feather-'' @ ver @ ''-'' @ tag @ ''.zip'') (toHex h) s
             (qInfo [''Update found: '', ''feather-'' @ ver @ ''-'' @ tag @ ''.zip'', toHex h,
                     ''signed by:'', s] w)"
    by (rule received_verified
        [where verify = "verifyParseSignedHashes keyring openArmored" and ver = ver and tag = tag,
         OF assms(1) v assms(6)])
  have vis: "visible (m_statusUpdateAvailable (onCheckUpdatesComplete a b c d x))" for a b c d x
    by (simp add: onCheckUpdatesComplete_def connect_def disconnect_def Let_def del: arg.simps replace.simps)
  show ?thesis
    unfolding r using clicked_onCheckUpdatesComplete vis by blast
qed

theorem verified_manifest_one_update_witness:
  "error fetched = NoError
   \<and> opensTo (manifestWith ''featherwallet'' ''feather-1.3.0-linux.zip'' [222, 173])
        (readAll fetched)
     = Some (manifestWith ''featherwallet'' ''feather-1.3.0-linux.zip'' [222, 173])
   \<and> clicked (m_statusUpdateAvailable
        (onSignedHashesReceived
           (verifyParseSignedHashes [''featherwallet'']
              (opensTo (manifestWith ''featherwallet'' ''feather-1.3.0-linux.zip'' [222, 173])))
           fetched ''linux'' ''1.3.0'' window0))
     = [\<lparr>version = ''1.3.0'', binaryFilename = ''feather-1.3.0-linux.zip'',
         hash = ''dead'', signer = ''featherwallet''\<rparr>]"
proof -
  let ?m = "manifestWith ''featherwallet'' ''feather-1.3.0-linux.zip'' [222, 173]"
  have h1: "error fetched = NoError" by (simp add: fetched_def NoError_def)
  have h2: "opensTo ?m (readAll fetched) = Some ?m" by (simp add: opensTo_def fetched_def)
  have h3: "signedBy ?m = Some ''featherwallet''" by (simp add: manifestWith_def)
  have h4: "''featherwallet'' \<in> set [''featherwallet'']" by simp
  have h5: "map_of (entries ?m) (''feather-'' @ ''1.3.0'' @ ''-'' @ ''linux'' @ ''.zip'')
            = Some [222, 173]"
    by (simp add: manifestWith_def)
  have h6: "[222, 173 :: 8 word] \<noteq> []" by simp
  have x: "toHex [222, 173] = ''dead''" by (simp add: toHex_def hexDigit_def)
  from verified_manifest_one_update
    [where openArmored = "opensTo ?m" and ver = "''1.3.0''" and tag = "''linux''" and w = window0,
     OF h1 h2 h3 h4 h5 h6]
  have "clicked (m_statusUpdateAvailable
          (onSignedHashesReceived (verifyParseSignedHashes [''featherwallet''] (opensTo ?m))
             fetched ''linux'' ''1.3.0'' window0))
        = [\<lparr>version = ''1.3.0'', binaryFilename = ''feather-'' @ ''1.3.0'' @ ''-'' @ ''linux'' @ ''.zip'',
            hash = toHex [222, 173], signer = ''featherwallet''\<rparr>]"
    by blast
  with h1 h2 x show ?thesis by simp
qed

subsection \<open>The binary filename and the download URL\<close>

lemma click_after_complete:
  "getPlatformTag (platform env) = tag \<Longrightarrow>
   click env (onCheckUpdatesComplete ver binary hashHex s w)
   = [\<lparr>dialogVersion = ver,
       downloadUrl = ''https://featherwallet.org/files/releases/'' @ tag @ ''/'' @ binary,
       dialogHash = hashHex, dialogSigner = s, dialogPlatformTag = tag\<rparr>]"
  by (simp add: click_def clicked_onCheckUpdatesComplete onShowUpdateCheck_def Let_def
      arg_downloadUrl del: arg.simps)

text \<open>
  Claim C7: the expected binary filename is \<open>feather-VERSION-PLATFORM.zip\<close>, and after a
  successful check the dialog that the update button opens gets, with version, hash and
  signer of the verified update, the download URL
  \<open>https://featherwallet.org/files/releases/PLATFORM/BINARY\<close>. In particular, running
  1.2.0 on linux with a feed that announces 1.3.0-beta, one request for
  \<open>hashes-1.3.0-beta-plain.txt\<close> is sent, and a validly signed manifest with an entry for
  \<open>feather-1.3.0-beta-linux.zip\<close> gives a verified update with that hash and the download
  URL \<open>.../linux/feather-1.3.0-beta-linux.zip\<close>.
\<close>

theorem download_url_of_verified_update:
  "(error reply = NoError
      \<and> verify (readAll reply) (''feather-'' @ ver @ ''-'' @ tag @ ''.zip'') = Inr (h, s)
      \<and> h \<noteq> [] \<and> getPlatformTag (platform env) = tag \<longrightarrow>
      clicked (m_statusUpdateAvailable (onSignedHashesReceived verify reply tag ver w))
        = [\<lparr>version = ver, binaryFilename = ''feather-'' @ ver @ ''-'' @ tag @ ''.zip'',
            hash = toHex h, signer = s\<rparr>]
      \<and> click env (onSignedHashesReceived verify reply tag ver w)
        = [\<lparr>dialogVersion = ver,
            downloadUrl = ''https://featherwallet.org/files/releases/'' @ tag @ ''/''
                            @ ''feather-'' @ ver @ ''-'' @ tag @ ''.zip'',
            dialogHash = toHex h, dialogSigner = s, dialogPlatformTag = tag\<rparr>])
   \<and> (FEATHER_VERSION env = ''1.2.0'' \<and> getPlatformTag (platform env) = ''linux''
      \<and> toString (valueAt (toObject (valueAt (toObject (valueAt updates ''platform'')) ''linux''))
           ''version'') = ''1.3.0-beta''
      \<and> error reply = NoError \<and> openArmored (readAll reply) = Some m
      \<and> signedBy m = Some s \<and> s \<in> set keyring
      \<and> map_of (entries m) ''feather-1.3.0-beta-linux.zip'' = Some h \<and> h \<noteq> [] \<longrightarrow>
      network (onUpdatesAvailable env updates w)
        = network w @ [\<lparr>url = websiteUrl env @ ''/files/releases/hashes-1.3.0-beta-plain.txt'',
                         boundPlatformTag = ''linux'', boundVersion = ''1.3.0-beta''\<rparr>]
      \<and> clicked (m_statusUpdateAvailable
           (onSignedHashesReceived (verifyParseSignedHashes keyring openArmored) reply
              ''linux'' ''1.3.0-beta'' (onUpdatesAvailable env updates w)))
        = [\<lparr>version = ''1.3.0-beta'', binaryFilename = ''feather-1.3.0-beta-linux.zip'',
            hash = toHex h, signer = s\<rparr>]
      \<and> click env
           (onSignedHashesReceived (verifyParseSignedHashes keyring openArmored) reply
              ''linux'' ''1.3.0-beta'' (onUpdatesAvailable env updates w))
        = [\<lparr>dialogVersion = ''1.3.0-beta'',
            downloadUrl = ''https://featherwallet.org/files/releases/linux/feather-1.3.0-beta-linux.zip'',
            dialogHash = toHex h, dialogSigner = s, dialogPlatformTag = ''linux''\<rparr>])"
proof -
  have general: "clicked (m_statusUpdateAvailable (onSignedHashesReceived verify reply tag ver w))
        = [\<lparr>version = ver, binaryFilename = ''feather-'' @ ver @ ''-'' @ tag @ ''.zip'',
            hash = toHex h, signer = s\<rparr>]
      \<and> click env (onSignedHashesReceived verify reply tag ver w)
        = [\<lparr>dialogVersion = ver,
            downloadUrl = ''https://featherwallet.org/files/releases/'' @ tag @ ''/''
                            @ ''feather-'' @ ver @ ''-'' @ tag @ ''.zip'',
            dialogHash = toHex h, dialogSigner = s, dialogPlatformTag = tag\<rparr>]"
    if "error reply = NoError"
      and "verify (readAll reply) (''feather-'' @ ver @ ''-'' @ tag @ ''.zip'') = Inr (h, s)"
      and "h \<noteq> []" and "getPlatformTag (platform env) = tag"
    for verify reply ver tag h s env w
    unfolding received_verified [where verify = verify and ver = ver and tag = tag, OF that(1-3)]
    by (simp only: clicked_onCheckUpdatesComplete click_after_complete [OF that(4)] simp_thms)
  have scenario: "network (onUpdatesAvailable env updates w)
        = network w @ [\<lparr>url = websiteUrl env @ ''/files/releases/hashes-1.3.0-beta-plain.txt'',
                         boundPlatformTag = ''linux'', boundVersion = ''1.3.0-beta''\<rparr>]
      \<and> clicked (m_statusUpdateAvailable
           (onSignedHashesReceived (verifyParseSignedHashes keyring openArmored) reply
              ''linux'' ''1.3.0-beta'' (onUpdatesAvailable env updates w)))
        = [\<lparr>version = ''1.3.0-beta'', binaryFilename = ''feather-1.3.0-beta-linux.zip'',
            hash = toHex h, signer = s\<rparr>]
      \<and> click env
           (onSignedHashesReceived (verifyParseSignedHashes keyring openArmored) reply
              ''linux'' ''1.3.0-beta'' (onUpdatesAvailable env updates w))
        = [\<lparr>dialogVersion = ''1.3.0-beta'',
            downloadUrl = ''https://featherwallet.org/files/releases/linux/feather-1.3.0-beta-linux.zip'',
            dialogHash = toHex h, dialogSigner = s, dialogPlatformTag = ''linux''\<rparr>]"
    if a: "FEATHER_VERSION env = ''1.2.0''" "getPlatformTag (platform env) = ''linux''"
      "toString (valueAt (toObject (valueAt (toObject (valueAt updates ''platform'')) ''linux''))
           ''version'') = ''1.3.0-beta''"
      and b: "error reply = NoError" "openArmored (readAll reply) = Some m"
      "signedBy m = Some s" "s \<in> set keyring"
      "map_of (entries m) ''feather-1.3.0-beta-linux.zip'' = Some h" "h \<noteq> []"
  proof -
    have newer: "isNewer (fromString ''1.3.0-beta'') (fromString (FEATHER_VERSION env))"
      unfolding a(1) by (rule newer_130beta_120)
    have "onUpdatesAvailable env updates w
         = w\<lparr>network := network w @
               [\<lparr>url = websiteUrl env @ ''/files/releases/hashes-'' @ ''1.3.0-beta'' @ ''-plain.txt'',
                 boundPlatformTag = ''linux'', boundVersion = ''1.3.0-beta''\<rparr>]\<rparr>"
      by (rule fetch_when_newer [OF a(2) _ a(3) newer]) simp
    then have n: "network (onUpdatesAvailable env updates w)
        = network w @ [\<lparr>url = websiteUrl env @ ''/files/releases/hashes-1.3.0-beta-plain.txt'',
                         boundPlatformTag = ''linux'', boundVersion = ''1.3.0-beta''\<rparr>]"
      by simp
    from b(2-5)
    have v: "verifyParseSignedHashes keyring openArmored (readAll reply)
             (''feather-'' @ ''1.3.0-beta'' @ ''-'' @ ''linux'' @ ''.zip'') = Inr (h, s)"
      unfolding verify_Inr_iff by simp
    from general [where verify = "verifyParseSignedHashes keyring openArmored"
        and ver = "''1.3.0-beta''" and tag = "''linux''" and w = "onUpdatesAvailable env updates w",
        OF b(1) v b(6) a(2)] n
    show ?thesis by simp
  qed
  from general scenario show ?thesis by blast
qed

theorem download_url_of_verified_update_witness:
  "FEATHER_VERSION (running linuxBuild ''1.2.0'') = ''1.2.0''
   \<and> getPlatformTag (platform (running linuxBuild ''1.2.0'')) = ''linux''
   \<and> network (onUpdatesAvailable (running linuxBuild ''1.2.0'') (feedFor ''linux'' ''1.3.0-beta'') window0)
     = [\<lparr>url = ''https://featherwallet.org/files/releases/hashes-1.3.0-beta-plain.txt'',
         boundPlatformTag = ''linux'', boundVersion = ''1.3.0-beta''\<rparr>]
   \<and> click (running linuxBuild ''1.2.0'')
        (onSignedHashesReceived
           (verifyParseSignedHashes [''featherwallet'']
              (opensTo (manifestWith ''featherwallet'' ''feather-1.3.0-beta-linux.zip'' [222, 173])))
           fetched ''linux'' ''1.3.0-beta''
           (onUpdatesAvailable (running linuxBuild ''1.2.0'') (feedFor ''linux'' ''1.3.0-beta'') window0))
     = [\<lparr>dialogVersion = ''1.3.0-beta'',
         downloadUrl = ''https://featherwallet.org/files/releases/linux/feather-1.3.0-beta-linux.zip'',
         dialogHash = ''dead'', dialogSigner = ''featherwallet'', dialogPlatformTag = ''linux''\<rparr>]"
proof -
  let ?m = "manifestWith ''featherwallet'' ''feather-1.3.0-beta-linux.zip'' [222, 173]"
  let ?env = "running linuxBuild ''1.2.0''"
  let ?V = "verifyParseSignedHashes [''featherwallet''] (opensTo ?m)"
  have e1: "FEATHER_VERSION ?env = ''1.2.0''" by (simp add: running_def)
  have e2: "getPlatformTag (platform ?env) = ''linux''"
    by (simp add: getPlatformTag_def running_def linuxBuild_def)
  have e3: "toString (valueAt (toObject (valueAt (toObject
              (valueAt (feedFor ''linux'' ''1.3.0-beta'') ''platform'')) ''linux'')) ''version'')
            = ''1.3.0-beta''"
    by (simp add: feedFor_def valueAt_def toObject_def toString_def)
  have h1: "error fetched = NoError" by (simp add: fetched_def NoError_def)
  have h2: "opensTo ?m (readAll fetched) = Some ?m" by (simp add: opensTo_def fetched_def)
  have h3: "signedBy ?m = Some ''featherwallet''" by (simp add: manifestWith_def)
  have h4: "''featherwallet'' \<in> set [''featherwallet'']" by simp
  have h5: "map_of (entries ?m) ''feather-1.3.0-beta-linux.zip'' = Some [222, 173]"
    by (simp add: manifestWith_def)
  have h6: "[222, 173 :: 8 word] \<noteq> []" by simp
  have v: "?V (readAll fetched) (''feather-'' @ ''1.3.0-beta'' @ ''-'' @ ''linux'' @ ''.zip'')
           = Inr ([222, 173], ''featherwallet'')"
    using h2 h3 h5 by (simp add: verifyParseSignedHashes_def)
  have x: "toHex [222, 173] = ''dead''" by (simp add: toHex_def hexDigit_def)
  have n: "network window0 = []" "websiteUrl ?env = ''https://featherwallet.org''"
    by (simp_all add: window0_def initStatusBar_def running_def)
  from download_url_of_verified_update
    [where verify = ?V and reply = fetched and ver = "''1.3.0-beta''" and tag = "''linux''"
       and h = "[222, 173]" and s = "''featherwallet''" and env = ?env and w = window0
       and updates = "feedFor ''linux'' ''1.3.0-beta''" and openArmored = "opensTo ?m"
       and m = ?m and keyring = "[''featherwallet'']"]
    e1 e2 e3 h1 h2 h3 h4 h5 h6 v
  have "network (onUpdatesAvailable ?env (feedFor ''linux'' ''1.3.0-beta'') window0)
        = network window0 @ [\<lparr>url = websiteUrl ?env @ ''/files/releases/hashes-1.3.0-beta-plain.txt'',
                         boundPlatformTag = ''linux'', boundVersion = ''1.3.0-beta''\<rparr>]
      \<and> click ?env (onSignedHashesReceived ?V fetched ''linux'' ''1.3.0-beta''
              (onUpdatesAvailable ?env (feedFor ''linux'' ''1.3.0-beta'') window0))
        = [\<lparr>dialogVersion = ''1.3.0-beta'',
            downloadUrl = ''https://featherwallet.org/files/releases/linux/feather-1.3.0-beta-linux.zip'',
            dialogHash = toHex [222, 173], dialogSigner = ''featherwallet'', dialogPlatformTag = ''linux''\<rparr>]"
    by blast
  with e1 e2 n x show ?thesis by simp
qed

end
